theory Spec2Isabelle
  imports Main "HOL-Library.Sublist" "HOL-Library.Char_ord"
begin

section \<open>Strings\<close>

text \<open>
  The strings of \<^verbatim>\<open>App.tsx\<close> are modelled as HOL strings: lists of 8-bit characters, read as
  the code units U+0000 to U+00FF. The three string methods the program calls
  (\<^verbatim>\<open>toLowerCase\<close>, \<^verbatim>\<open>includes\<close>, \<^verbatim>\<open>trim\<close>) belong to the language, not to the
  repository; they are defined here as ECMAScript defines them on that range.
\<close>

text \<open>
  The characters of the range with a different lower-case form: A to Z, and the Latin-1
  capitals U+00C0 to U+00DE without the multiplication sign U+00D7.
\<close>

definition isUpper :: "char \<Rightarrow> bool" where
  "isUpper c = ((CHR ''A'' \<le> c \<and> c \<le> CHR ''Z'') \<or>
                (CHR 0xC0 \<le> c \<and> c \<le> CHR 0xDE \<and> c \<noteq> CHR 0xD7))"

text \<open>The lower-case form of such a character is 32 code units higher: bit 5 is set.\<close>

definition lower_char :: "char \<Rightarrow> char" where
  "lower_char c =
     (if isUpper c
      then Char (digit0 c) (digit1 c) (digit2 c) (digit3 c) (digit4 c) True (digit6 c) (digit7 c)
      else c)"

definition toLowerCase :: "string \<Rightarrow> string" where
  "toLowerCase s = map lower_char s"

text \<open>\<^verbatim>\<open>s.includes(p)\<close>: does \<open>p\<close> occur in \<open>s\<close> at some position.\<close>

fun includes_str :: "string \<Rightarrow> string \<Rightarrow> bool" where
  "includes_str [] p = (p = [])"
| "includes_str (c # cs) p = (prefix p (c # cs) \<or> includes_str cs p)"

text \<open>
  \<^verbatim>\<open>s.trim()\<close> strips white space and line terminators from both ends. In the range these
  are TAB, LF, VT, FF, CR, SPACE and the no-break space U+00A0.
\<close>

definition isWhiteSpace :: "char \<Rightarrow> bool" where
  "isWhiteSpace c = (c \<in> set [CHR 0x09, CHR 0x0A, CHR 0x0B, CHR 0x0C, CHR 0x0D, CHR 0x20, CHR 0xA0])"

definition trim :: "string \<Rightarrow> string" where
  "trim s = rev (dropWhile isWhiteSpace (rev (dropWhile isWhiteSpace s)))"

text \<open>A string in a condition: only the empty string is falsy.\<close>

definition truthy :: "string \<Rightarrow> bool" where
  "truthy s = (s \<noteq> [])"


section \<open>The remote text-generation service\<close>

text \<open>
  The client library \<^verbatim>\<open>@google/generative-ai\<close> is outside the repository. It is a parameter
  of the model: \<^verbatim>\<open>genAI.getGenerativeModel({ model: m })\<close> gives a model, and
  \<^verbatim>\<open>model.generateContent(p)\<close> gives a promise. The service has a state of its own, the
  world \<open>'w\<close>, which a call reads and changes; a call issued later sees the world the
  earlier one left.

  An awaited promise resolves with a value, rejects with an exception, or never settles
  (the program sets no timeout). The accessor \<^verbatim>\<open>response.text()\<close> of a resolved call is
  synchronous: it returns the text or throws.
\<close>

datatype exn = Error string

datatype 'a promise = Resolved 'a | Rejected exn | Pending

datatype response = Response (response_text: "exn + string")

type_synonym 'w GenerativeModel = "string \<Rightarrow> 'w \<Rightarrow> response promise \<times> 'w"

type_synonym 'w GoogleGenerativeAI = "string \<Rightarrow> 'w GenerativeModel"

text \<open>
  What a run leaves behind besides its result: the world, the prompts passed to
  \<^verbatim>\<open>generateContent\<close> in the order of the calls, and the lines written with
  \<^verbatim>\<open>console.error\<close> (the message and, where one is passed, the exception).
\<close>

datatype console_entry = ConsoleError string "exn option"

record 'w effects =
  world :: 'w
  calls :: "string list"
  console :: "console_entry list"

text \<open>
  \<^verbatim>\<open>(await model.generateContent(p)).response.text()\<close>: the call is awaited, then the text is
  read. Both can raise.
\<close>

definition generateText :: "'w GenerativeModel \<Rightarrow> string \<Rightarrow> 'w \<Rightarrow> string promise \<times> 'w" where
  "generateText model p w =
     (case model p w of
        (Resolved r, w') \<Rightarrow> (case response_text r of Inl e \<Rightarrow> (Rejected e, w') | Inr t \<Rightarrow> (Resolved t, w'))
      | (Rejected e, w') \<Rightarrow> (Rejected e, w')
      | (Pending, w') \<Rightarrow> (Pending, w'))"


section \<open>getGeminiResponse\<close>

definition modelName :: string where
  "modelName = ''gemini-1.5-flash''"

definition categoryCheckPrompt :: "string \<Rightarrow> string" where
  "categoryCheckPrompt question =
     ''Determine if this question is related to cybersecurity. Only respond with \"true\" if it's cybersecurity-related, or \"false\" if it's not: \"''
     @ question @ ''\"''"

definition prompt :: "string \<Rightarrow> string" where
  "prompt question =
     ''You are a cybersecurity expert AI assistant. Please provide a detailed, professional response to this cybersecurity question: ''
     @ question"

definition refusal :: string where
  "refusal = ''I apologize, but I can only assist with cybersecurity-related questions. Please feel free to ask any questions about cybersecurity, and I'll be happy to help.''"

definition technicalDifficulties :: string where
  "technicalDifficulties = ''I apologize, but I'm currently experiencing technical difficulties. Please try again later.''"

definition isCyberSecurityRelated :: "string \<Rightarrow> bool" where
  "isCyberSecurityRelated t = includes_str (toLowerCase t) ''true''"

text \<open>The body of the \<^verbatim>\<open>try\<close> block: its outcome, the world after it and the prompts sent.\<close>

definition getGeminiResponse_try ::
  "'w GoogleGenerativeAI \<Rightarrow> string \<Rightarrow> 'w \<Rightarrow> string promise \<times> 'w \<times> string list" where
  "getGeminiResponse_try genAI question w =
     (let model = genAI modelName in
      case generateText model (categoryCheckPrompt question) w of
        (Rejected e, w1) \<Rightarrow> (Rejected e, w1, [categoryCheckPrompt question])
      | (Pending, w1) \<Rightarrow> (Pending, w1, [categoryCheckPrompt question])
      | (Resolved t, w1) \<Rightarrow>
          if \<not> isCyberSecurityRelated t
          then (Resolved refusal, w1, [categoryCheckPrompt question])
          else (case generateText model (prompt question) w1 of
                  (r, w2) \<Rightarrow> (r, w2, [categoryCheckPrompt question, prompt question])))"

text \<open>
  The whole function: the \<^verbatim>\<open>catch\<close> clause takes every exception of the body, writes one
  line to the console (without the exception) and returns the fixed string.
\<close>

definition getGeminiResponse ::
  "'w GoogleGenerativeAI \<Rightarrow> string \<Rightarrow> 'w \<Rightarrow> string promise \<times> 'w effects" where
  "getGeminiResponse genAI question w =
     (case getGeminiResponse_try genAI question w of
        (Rejected e, w', cs) \<Rightarrow>
          (Resolved technicalDifficulties,
           \<lparr>world = w', calls = cs, console = [ConsoleError ''Error getting Gemini response:'' None]\<rparr>)
      | (r, w', cs) \<Rightarrow> (r, \<lparr>world = w', calls = cs, console = []\<rparr>))"


section \<open>handleSubmit\<close>

datatype sender = User | Bot

datatype attachment_type = Image | File

record attachment =
  att_type :: attachment_type
  att_name :: string
  att_url :: string

record message =
  msg_type :: sender
  content :: string
  msg_attachment :: "attachment option"
  timestamp :: "int option"

text \<open>
  The state of the component \<^verbatim>\<open>App\<close>. \<open>fileInputValue\<close> is the value of the file input
  behind \<^verbatim>\<open>fileInputRef\<close>, \<open>None\<close> when the reference is not attached.
\<close>

record app_state =
  input :: string
  messages :: "message list"
  isLoading :: bool
  attachment :: "attachment option"
  isSidebarOpen :: bool
  searchHistory :: "(string \<times> int) list"
  fileInputValue :: "string option"

definition submitError :: string where
  "submitError = ''I apologize, but I encountered an error processing your request. Please try again.''"

text \<open>
  \<open>now\<close> reads the clock of the world (\<^verbatim>\<open>Date.now()\<close>). A submission that passes the guard
  records the user's message, clears the form, sets the loading flag and awaits
  \<open>getGeminiResponse\<close> on the input as typed; while that promise is unsettled the state
  stays as the first phase left it.
\<close>

definition handleSubmit ::
  "'w GoogleGenerativeAI \<Rightarrow> ('w \<Rightarrow> int) \<Rightarrow> app_state \<Rightarrow> 'w \<Rightarrow> app_state \<times> 'w effects" where
  "handleSubmit genAI now st w =
     (if (\<not> truthy (trim (input st)) \<and> attachment st = None) \<or> isLoading st
      then (st, \<lparr>world = w, calls = [], console = []\<rparr>)
      else
        let ts = now w;
            userMessage = \<lparr>msg_type = User, content = input st,
                           msg_attachment = attachment st, timestamp = Some ts\<rparr>;
            st1 = st\<lparr>messages := messages st @ [userMessage],
                     searchHistory := (input st, ts) # searchHistory st,
                     input := [],
                     attachment := None,
                     fileInputValue := map_option (\<lambda>_. []) (fileInputValue st),
                     isLoading := True\<rparr>
        in case getGeminiResponse genAI (input st) w of
             (Resolved response, eff) \<Rightarrow>
               (st1\<lparr>messages := messages st1 @
                       [\<lparr>msg_type = Bot, content = response, msg_attachment = None,
                         timestamp = Some (now (world eff))\<rparr>],
                    isLoading := False\<rparr>,
                eff)
           | (Rejected error, eff) \<Rightarrow>
               (st1\<lparr>messages := messages st1 @
                       [\<lparr>msg_type = Bot, content = submitError, msg_attachment = None,
                         timestamp = Some (now (world eff))\<rparr>],
                    isLoading := False\<rparr>,
                eff\<lparr>console := console eff @
                       [ConsoleError ''Error getting Gemini response:'' (Some error)]\<rparr>)
           | (Pending, eff) \<Rightarrow> (st1, eff))"


section \<open>Stub services\<close>

text \<open>
  A stub answers from a table of prompts and counts the calls in its world, a natural
  number. The tables are the examples of the specification.
\<close>

definition stubAI :: "(string \<Rightarrow> response promise) \<Rightarrow> nat GoogleGenerativeAI" where
  "stubAI table m p n = (table p, Suc n)"

definition firewallQuestion :: string where
  "firewallQuestion = ''How do I set up a firewall rule to block inbound SSH?''"

definition pizzaQuestion :: string where
  "pizzaQuestion = ''What's the best pizza topping?''"

definition firewallTable :: "string \<Rightarrow> response promise" where
  "firewallTable p =
     (if p = categoryCheckPrompt firewallQuestion then Resolved (Response (Inr ''True.''))
      else if p = prompt firewallQuestion then Resolved (Response (Inr ''Step 1: ...''))
      else Rejected (Error ''unexpected prompt''))"

definition pizzaTable :: "string \<Rightarrow> response promise" where
  "pizzaTable p =
     (if p = categoryCheckPrompt pizzaQuestion then Resolved (Response (Inr ''false''))
      else Rejected (Error ''unexpected prompt''))"

definition networkError :: "string \<Rightarrow> response promise" where
  "networkError p = Rejected (Error ''Failed to fetch'')"

definition quotaTable :: "string \<Rightarrow> response promise" where
  "quotaTable p =
     (if p = categoryCheckPrompt firewallQuestion then Resolved (Response (Inr ''true''))
      else Rejected (Error ''429 quota exceeded''))"

definition hungService :: "string \<Rightarrow> response promise" where
  "hungService p = Pending"

text \<open>A service that answers the two prompts of the firewall question and hangs on any other.\<close>

definition pickyTable :: "string \<Rightarrow> response promise" where
  "pickyTable p =
     (if p = categoryCheckPrompt firewallQuestion then Resolved (Response (Inr ''True.''))
      else if p = prompt firewallQuestion then Resolved (Response (Inr ''Step 1: ...''))
      else Pending)"

text \<open>
  A service is deterministic when what a call returns depends on the model name and the
  prompt only, not on the world the call is issued in.
\<close>

definition deterministic :: "'w GoogleGenerativeAI \<Rightarrow> bool" where
  "deterministic genAI = (\<forall>m p w w'. fst (genAI m p w) = fst (genAI m p w'))"


text \<open>A clock, and states of the component for the examples.\<close>

definition clock :: "nat \<Rightarrow> int" where
  "clock n = 1700000000000 + int n"

definition freshState :: app_state where
  "freshState = \<lparr>input = firewallQuestion, messages = [], isLoading = False, attachment = None,
                  isSidebarOpen = False, searchHistory = [], fileInputValue = Some []\<rparr>"

definition laterState :: app_state where
  "laterState = \<lparr>input = firewallQuestion,
                  messages = [\<lparr>msg_type = User, content = pizzaQuestion, msg_attachment = None,
                               timestamp = Some 1699999999000\<rparr>,
                              \<lparr>msg_type = Bot, content = refusal, msg_attachment = None,
                               timestamp = Some 1699999999500\<rparr>],
                  isLoading = False, attachment = None, isSidebarOpen = True,
                  searchHistory = [(pizzaQuestion, 1699999999000)], fileInputValue = Some []\<rparr>"

definition report :: attachment where
  "report = \<lparr>att_type = File, att_name = ''report.pdf'', att_url = ''blob:report''\<rparr>"

definition blankState :: app_state where
  "blankState = freshState\<lparr>input := ''  ''\<rparr>"

definition blankWithReport :: app_state where
  "blankWithReport = freshState\<lparr>input := ''  '', attachment := Some report,
                                 fileInputValue := Some ''report.pdf''\<rparr>"

definition busyState :: app_state where
  "busyState = freshState\<lparr>isLoading := True\<rparr>"


section \<open>Facts about the string methods\<close>

lemma includes_str_sublist: "includes_str s p \<longleftrightarrow> sublist p s"
  by (induction s) (auto simp: sublist_Cons_right)

lemma includes_str_iff: "includes_str s p \<longleftrightarrow> (\<exists>pre post. s = pre @ p @ post)"
  by (simp add: includes_str_sublist sublist_def)

lemma lower_char_true:
  "lower_char c = CHR ''t'' \<longleftrightarrow> c = CHR ''t'' \<or> c = CHR ''T''"
  "lower_char c = CHR ''r'' \<longleftrightarrow> c = CHR ''r'' \<or> c = CHR ''R''"
  "lower_char c = CHR ''u'' \<longleftrightarrow> c = CHR ''u'' \<or> c = CHR ''U''"
  "lower_char c = CHR ''e'' \<longleftrightarrow> c = CHR ''e'' \<or> c = CHR ''E''"
  by (cases c; auto simp: lower_char_def isUpper_def less_eq_char_def)+

lemma of_char_lower_char:
  "of_char (lower_char c) = (if isUpper c then of_char c + 32 else (of_char c :: nat))"
  by (cases c) (auto simp: lower_char_def isUpper_def less_eq_char_def)

lemma map_eq_append4:
  "map f xs = pre @ [a, b, c, d] @ post \<longleftrightarrow>
   (\<exists>pre' a' b' c' d' post'. xs = pre' @ [a', b', c', d'] @ post' \<and> map f pre' = pre \<and>
      f a' = a \<and> f b' = b \<and> f c' = c \<and> f d' = d \<and> map f post' = post)"
proof
  assume "map f xs = pre @ [a, b, c, d] @ post"
  then obtain us vs where xs: "xs = us @ vs" and us: "map f us = pre"
    and vs: "map f vs = [a, b, c, d] @ post"
    by (auto simp: map_eq_append_conv)
  from vs obtain a' b' c' d' post' where "vs = [a', b', c', d'] @ post'"
    "f a' = a" "f b' = b" "f c' = c" "f d' = d" "map f post' = post"
    by (auto simp: map_eq_Cons_conv)
  with xs us show "\<exists>pre' a' b' c' d' post'. xs = pre' @ [a', b', c', d'] @ post' \<and> map f pre' = pre \<and>
      f a' = a \<and> f b' = b \<and> f c' = c \<and> f d' = d \<and> map f post' = post"
    by blast
next
  assume "\<exists>pre' a' b' c' d' post'. xs = pre' @ [a', b', c', d'] @ post' \<and> map f pre' = pre \<and>
      f a' = a \<and> f b' = b \<and> f c' = c \<and> f d' = d \<and> map f post' = post"
  then show "map f xs = pre @ [a, b, c, d] @ post" by auto
qed

lemma isCyberSecurityRelated_chars:
  "isCyberSecurityRelated t \<longleftrightarrow>
   (\<exists>pre a b c d post. t = pre @ [a, b, c, d] @ post \<and>
      a \<in> {CHR ''t'', CHR ''T''} \<and> b \<in> {CHR ''r'', CHR ''R''} \<and>
      c \<in> {CHR ''u'', CHR ''U''} \<and> d \<in> {CHR ''e'', CHR ''E''})"
proof -
  have "isCyberSecurityRelated t \<longleftrightarrow>
        (\<exists>pre post. map lower_char t = pre @ [CHR ''t'', CHR ''r'', CHR ''u'', CHR ''e''] @ post)"
    by (simp add: isCyberSecurityRelated_def toLowerCase_def includes_str_iff)
  also have "\<dots> \<longleftrightarrow> (\<exists>pre a b c d post. t = pre @ [a, b, c, d] @ post \<and>
      lower_char a = CHR ''t'' \<and> lower_char b = CHR ''r'' \<and>
      lower_char c = CHR ''u'' \<and> lower_char d = CHR ''e'')"
    unfolding map_eq_append4 by blast
  finally show ?thesis
    by (simp add: lower_char_true)
qed


section \<open>Facts about the pipeline\<close>

lemma generateText_Rejected_iff:
  "fst (generateText model p w) = Rejected e \<longleftrightarrow>
   fst (model p w) = Rejected e \<or> (\<exists>r. fst (model p w) = Resolved r \<and> response_text r = Inl e)"
  by (auto simp: generateText_def split: prod.splits promise.splits sum.splits)

lemma generateText_Pending_iff:
  "fst (generateText model p w) = Pending \<longleftrightarrow> fst (model p w) = Pending"
  by (auto simp: generateText_def split: prod.splits promise.splits sum.splits)

lemma generateText_Resolved_iff:
  "fst (generateText model p w) = Resolved t \<longleftrightarrow>
   (\<exists>r. fst (model p w) = Resolved r \<and> response_text r = Inr t)"
  by (auto simp: generateText_def split: prod.splits promise.splits sum.splits)

lemma snd_generateText: "snd (generateText model p w) = snd (model p w)"
  by (auto simp: generateText_def split: prod.splits promise.splits sum.splits)

lemma isCyberSecurityRelated_sublist:
  "isCyberSecurityRelated t \<longleftrightarrow> sublist ''true'' (toLowerCase t)"
  by (simp add: isCyberSecurityRelated_def includes_str_sublist)

lemma getGeminiResponse_classified_out:
  assumes "generateText (genAI modelName) (categoryCheckPrompt question) w = (Resolved t, w1)"
    and "\<not> isCyberSecurityRelated t"
  shows "getGeminiResponse genAI question w =
         (Resolved refusal, \<lparr>world = w1, calls = [categoryCheckPrompt question], console = []\<rparr>)"
  using assms by (simp add: getGeminiResponse_def getGeminiResponse_try_def)

lemma getGeminiResponse_classified_in:
  assumes "generateText (genAI modelName) (categoryCheckPrompt question) w = (Resolved t, w1)"
    and "isCyberSecurityRelated t"
    and "generateText (genAI modelName) (prompt question) w1 = (r, w2)"
  shows "getGeminiResponse genAI question w =
         (case r of Rejected e \<Rightarrow> Resolved technicalDifficulties | _ \<Rightarrow> r,
          \<lparr>world = w2, calls = [categoryCheckPrompt question, prompt question],
           console = (case r of Rejected e \<Rightarrow> [ConsoleError ''Error getting Gemini response:'' None] | _ \<Rightarrow> [])\<rparr>)"
  using assms by (simp add: getGeminiResponse_def getGeminiResponse_try_def split: promise.splits)

lemma getGeminiResponse_classify_rejected:
  assumes "generateText (genAI modelName) (categoryCheckPrompt question) w = (Rejected e, w1)"
  shows "getGeminiResponse genAI question w =
         (Resolved technicalDifficulties,
          \<lparr>world = w1, calls = [categoryCheckPrompt question],
           console = [ConsoleError ''Error getting Gemini response:'' None]\<rparr>)"
  using assms by (simp add: getGeminiResponse_def getGeminiResponse_try_def)

lemma getGeminiResponse_classify_pending:
  assumes "generateText (genAI modelName) (categoryCheckPrompt question) w = (Pending, w1)"
  shows "getGeminiResponse genAI question w =
         (Pending, \<lparr>world = w1, calls = [categoryCheckPrompt question], console = []\<rparr>)"
  using assms by (simp add: getGeminiResponse_def getGeminiResponse_try_def)

lemma getGeminiResponse_not_Rejected:
  "fst (getGeminiResponse genAI question w) \<noteq> Rejected e"
  by (auto simp: getGeminiResponse_def split: prod.splits promise.splits)


lemma getGeminiResponse_cases:
  obtains
    (rejected) e w1 where "generateText (genAI modelName) (categoryCheckPrompt question) w = (Rejected e, w1)"
  | (pending) w1 where "generateText (genAI modelName) (categoryCheckPrompt question) w = (Pending, w1)"
  | (out) t w1 where "generateText (genAI modelName) (categoryCheckPrompt question) w = (Resolved t, w1)"
      "\<not> isCyberSecurityRelated t"
  | (inside) t w1 r w2 where "generateText (genAI modelName) (categoryCheckPrompt question) w = (Resolved t, w1)"
      "isCyberSecurityRelated t" "generateText (genAI modelName) (prompt question) w1 = (r, w2)"
proof (cases "generateText (genAI modelName) (categoryCheckPrompt question) w")
  case (Pair r1 w1)
  show ?thesis
  proof (cases r1)
    case (Resolved t)
    show ?thesis
    proof (cases "isCyberSecurityRelated t")
      case True
      obtain r w2 where "generateText (genAI modelName) (prompt question) w1 = (r, w2)"
        by (cases "generateText (genAI modelName) (prompt question) w1")
      with Pair Resolved True show ?thesis by (auto intro: inside)
    next
      case False
      with Pair Resolved show ?thesis by (auto intro: out)
    qed
  next
    case (Rejected e)
    with Pair show ?thesis by (auto intro: rejected)
  next
    case Pending
    with Pair show ?thesis by (auto intro: pending)
  qed
qed

lemma deterministic_generateText:
  "deterministic genAI \<Longrightarrow> fst (generateText (genAI m) p w) = fst (generateText (genAI m) p w')"
proof -
  assume "deterministic genAI"
  then have "fst (genAI m p w) = fst (genAI m p w')"
    by (simp add: deterministic_def)
  then show ?thesis
    by (cases "genAI m p w"; cases "genAI m p w'")
       (auto simp: generateText_def split: promise.splits sum.splits)
qed

lemma getGeminiResponse_answer:
  "fst (getGeminiResponse genAI question w) =
     (case fst (generateText (genAI modelName) (categoryCheckPrompt question) w) of
        Rejected e \<Rightarrow> Resolved technicalDifficulties
      | Pending \<Rightarrow> Pending
      | Resolved t \<Rightarrow>
          if \<not> isCyberSecurityRelated t then Resolved refusal
          else (case fst (generateText (genAI modelName) (prompt question)
                            (snd (generateText (genAI modelName) (categoryCheckPrompt question) w))) of
                  Rejected e \<Rightarrow> Resolved technicalDifficulties
                | r \<Rightarrow> r))"
  by (cases rule: getGeminiResponse_cases [of genAI question w])
     (simp_all add: getGeminiResponse_classified_in getGeminiResponse_classified_out
        getGeminiResponse_classify_rejected getGeminiResponse_classify_pending split: promise.splits)

lemma getGeminiResponse_calls:
  "calls (snd (getGeminiResponse genAI question w)) =
     (case fst (generateText (genAI modelName) (categoryCheckPrompt question) w) of
        Resolved t \<Rightarrow>
          if isCyberSecurityRelated t then [categoryCheckPrompt question, prompt question]
          else [categoryCheckPrompt question]
      | _ \<Rightarrow> [categoryCheckPrompt question])"
  by (cases rule: getGeminiResponse_cases [of genAI question w])
     (simp_all add: getGeminiResponse_classified_in getGeminiResponse_classified_out
        getGeminiResponse_classify_rejected getGeminiResponse_classify_pending split: promise.splits)

lemma getGeminiResponse_world:
  "world (snd (getGeminiResponse genAI question w)) =
     (let w1 = snd (generateText (genAI modelName) (categoryCheckPrompt question) w) in
      case fst (generateText (genAI modelName) (categoryCheckPrompt question) w) of
        Resolved t \<Rightarrow>
          if isCyberSecurityRelated t then snd (generateText (genAI modelName) (prompt question) w1)
          else w1
      | _ \<Rightarrow> w1)"
  by (cases rule: getGeminiResponse_cases [of genAI question w])
     (simp_all add: getGeminiResponse_classified_in getGeminiResponse_classified_out
        getGeminiResponse_classify_rejected getGeminiResponse_classify_pending split: promise.splits)

lemma deterministic_answer:
  assumes "deterministic genAI"
  shows "fst (getGeminiResponse genAI question w) = fst (getGeminiResponse genAI question w')"
  unfolding getGeminiResponse_answer
  using deterministic_generateText [OF assms, of modelName "categoryCheckPrompt question" w w']
    deterministic_generateText [OF assms, of modelName "prompt question"
      "snd (generateText (genAI modelName) (categoryCheckPrompt question) w)"
      "snd (generateText (genAI modelName) (categoryCheckPrompt question) w')"]
  by (simp split: promise.splits)

lemma deterministic_stubAI: "deterministic (stubAI table)"
  by (simp add: deterministic_def stubAI_def)


lemma firewall_run:
  "getGeminiResponse (stubAI firewallTable) firewallQuestion n =
     (Resolved ''Step 1: ...'',
      \<lparr>world = Suc (Suc n), calls = [categoryCheckPrompt firewallQuestion, prompt firewallQuestion],
       console = []\<rparr>)"
proof -
  have h1: "generateText (stubAI firewallTable modelName) (categoryCheckPrompt firewallQuestion) n =
            (Resolved ''True.'', Suc n)"
    by (simp add: stubAI_def firewallTable_def generateText_def)
  have h2: "isCyberSecurityRelated ''True.''"
    by (simp add: isCyberSecurityRelated_def toLowerCase_def lower_char_def isUpper_def)
  have h3: "generateText (stubAI firewallTable modelName) (prompt firewallQuestion) (Suc n) =
            (Resolved ''Step 1: ...'', Suc (Suc n))"
    by (simp add: stubAI_def firewallTable_def generateText_def prompt_def categoryCheckPrompt_def)
  show ?thesis
    using getGeminiResponse_classified_in [where genAI = "stubAI firewallTable", OF h1 h2 h3]
    by simp
qed

lemma pizza_run:
  "getGeminiResponse (stubAI pizzaTable) pizzaQuestion n =
     (Resolved refusal, \<lparr>world = Suc n, calls = [categoryCheckPrompt pizzaQuestion], console = []\<rparr>)"
proof -
  have h1: "generateText (stubAI pizzaTable modelName) (categoryCheckPrompt pizzaQuestion) n =
            (Resolved ''false'', Suc n)"
    by (simp add: stubAI_def pizzaTable_def generateText_def)
  have h2: "\<not> isCyberSecurityRelated ''false''"
    by (simp add: isCyberSecurityRelated_def toLowerCase_def lower_char_def isUpper_def)
  show ?thesis
    using getGeminiResponse_classified_out [where genAI = "stubAI pizzaTable", OF h1 h2] .
qed

lemma networkError_run:
  "getGeminiResponse (stubAI networkError) question n =
     (Resolved technicalDifficulties,
      \<lparr>world = Suc n, calls = [categoryCheckPrompt question],
       console = [ConsoleError ''Error getting Gemini response:'' None]\<rparr>)"
proof -
  have h1: "generateText (stubAI networkError modelName) (categoryCheckPrompt question) n =
            (Rejected (Error ''Failed to fetch''), Suc n)"
    by (simp add: stubAI_def networkError_def generateText_def)
  show ?thesis
    using getGeminiResponse_classify_rejected [where genAI = "stubAI networkError", OF h1] .
qed

lemma hungService_run:
  "getGeminiResponse (stubAI hungService) question n =
     (Pending, \<lparr>world = Suc n, calls = [categoryCheckPrompt question], console = []\<rparr>)"
proof -
  have h1: "generateText (stubAI hungService modelName) (categoryCheckPrompt question) n =
            (Pending, Suc n)"
    by (simp add: stubAI_def hungService_def generateText_def)
  show ?thesis
    using getGeminiResponse_classify_pending [where genAI = "stubAI hungService", OF h1] .
qed


lemma getGeminiResponse_Resolved_iff:
  "(\<exists>s. fst (getGeminiResponse genAI question w) = Resolved s) \<longleftrightarrow>
   fst (genAI modelName (categoryCheckPrompt question) w) \<noteq> Pending \<and>
   ((\<exists>t. fst (generateText (genAI modelName) (categoryCheckPrompt question) w) = Resolved t \<and>
         sublist ''true'' (toLowerCase t)) \<longrightarrow>
    fst (genAI modelName (prompt question)
           (snd (genAI modelName (categoryCheckPrompt question) w))) \<noteq> Pending)"
proof -
  have "(\<exists>s. fst (getGeminiResponse genAI question w) = Resolved s) \<longleftrightarrow>
        fst (getGeminiResponse genAI question w) \<noteq> Pending"
    using getGeminiResponse_not_Rejected [of genAI question w]
    by (cases "fst (getGeminiResponse genAI question w)") auto
  also have "\<dots> \<longleftrightarrow>
     fst (generateText (genAI modelName) (categoryCheckPrompt question) w) \<noteq> Pending \<and>
     ((\<exists>t. fst (generateText (genAI modelName) (categoryCheckPrompt question) w) = Resolved t \<and>
           isCyberSecurityRelated t) \<longrightarrow>
      fst (generateText (genAI modelName) (prompt question)
             (snd (generateText (genAI modelName) (categoryCheckPrompt question) w))) \<noteq> Pending)"
    by (auto simp: getGeminiResponse_answer split: promise.splits)
  finally show ?thesis
    by (simp add: generateText_Pending_iff snd_generateText isCyberSecurityRelated_sublist)
qed

lemma picky_run:
  "getGeminiResponse (stubAI pickyTable) firewallQuestion n =
     (Resolved ''Step 1: ...'',
      \<lparr>world = Suc (Suc n), calls = [categoryCheckPrompt firewallQuestion, prompt firewallQuestion],
       console = []\<rparr>)"
proof -
  have h1: "generateText (stubAI pickyTable modelName) (categoryCheckPrompt firewallQuestion) n =
            (Resolved ''True.'', Suc n)"
    by (simp add: stubAI_def pickyTable_def generateText_def)
  have h2: "isCyberSecurityRelated ''True.''"
    by (simp add: isCyberSecurityRelated_def toLowerCase_def lower_char_def isUpper_def)
  have h3: "generateText (stubAI pickyTable modelName) (prompt firewallQuestion) (Suc n) =
            (Resolved ''Step 1: ...'', Suc (Suc n))"
    by (simp add: stubAI_def pickyTable_def generateText_def prompt_def categoryCheckPrompt_def)
  show ?thesis
    using getGeminiResponse_classified_in [where genAI = "stubAI pickyTable", OF h1 h2 h3]
    by simp
qed

lemma getGeminiResponse_calls_subset:
  "set (calls (snd (getGeminiResponse genAI question w))) \<subseteq>
     {categoryCheckPrompt question, prompt question}"
  by (auto simp: getGeminiResponse_calls split: promise.splits if_splits)

section \<open>Facts about handleSubmit\<close>

lemma dropWhile_all_iff: "(\<forall>x\<in>set (dropWhile P xs). P x) \<longleftrightarrow> (\<forall>x\<in>set xs. P x)"
proof
  assume a: "\<forall>x\<in>set (dropWhile P xs). P x"
  have "dropWhile P xs = []"
  proof (rule ccontr)
    assume n: "dropWhile P xs \<noteq> []"
    then have "\<not> P (hd (dropWhile P xs))" by (rule hd_dropWhile)
    moreover from n have "hd (dropWhile P xs) \<in> set (dropWhile P xs)" by simp
    ultimately show False using a by blast
  qed
  then show "\<forall>x\<in>set xs. P x" by (simp add: dropWhile_eq_Nil_conv)
next
  assume "\<forall>x\<in>set xs. P x"
  then show "\<forall>x\<in>set (dropWhile P xs). P x" by (auto dest: set_dropWhileD)
qed

lemma trim_empty_iff: "trim s = [] \<longleftrightarrow> (\<forall>c\<in>set s. isWhiteSpace c)"
proof -
  have "trim s = [] \<longleftrightarrow> (\<forall>c\<in>set (dropWhile isWhiteSpace s). isWhiteSpace c)"
    by (simp add: trim_def dropWhile_eq_Nil_conv)
  then show ?thesis by (simp only: dropWhile_all_iff)
qed

lemma handleSubmit_guarded:
  assumes "(\<not> truthy (trim (input st)) \<and> attachment st = None) \<or> isLoading st"
  shows "handleSubmit genAI now st w = (st, \<lparr>world = w, calls = [], console = []\<rparr>)"
  using assms by (auto simp: handleSubmit_def)

lemma handleSubmit_effects:
  assumes "\<not> ((\<not> truthy (trim (input st)) \<and> attachment st = None) \<or> isLoading st)"
  shows "snd (handleSubmit genAI now st w) = snd (getGeminiResponse genAI (input st) w)"
proof (cases "getGeminiResponse genAI (input st) w")
  case (Pair r eff)
  with getGeminiResponse_not_Rejected [of genAI "input st" w] have "\<And>e. r \<noteq> Rejected e"
    by simp
  with Pair assms show ?thesis
    by (cases r) (auto simp: handleSubmit_def Let_def)
qed

lemma handleSubmit_contents:
  assumes "\<not> ((\<not> truthy (trim (input st)) \<and> attachment st = None) \<or> isLoading st)"
  shows "map content (messages (fst (handleSubmit genAI now st w))) =
         map content (messages st) @ [input st] @
           (case fst (getGeminiResponse genAI (input st) w) of Resolved s \<Rightarrow> [s] | _ \<Rightarrow> [])"
proof (cases "getGeminiResponse genAI (input st) w")
  case (Pair r eff)
  with getGeminiResponse_not_Rejected [of genAI "input st" w] have "\<And>e. r \<noteq> Rejected e"
    by simp
  with Pair assms show ?thesis
    by (cases r) (auto simp: handleSubmit_def Let_def)
qed

lemma handleSubmit_loading:
  assumes "\<not> ((\<not> truthy (trim (input st)) \<and> attachment st = None) \<or> isLoading st)"
  shows "isLoading (fst (handleSubmit genAI now st w)) \<longleftrightarrow>
         fst (getGeminiResponse genAI (input st) w) = Pending"
proof (cases "getGeminiResponse genAI (input st) w")
  case (Pair r eff)
  with getGeminiResponse_not_Rejected [of genAI "input st" w] have "\<And>e. r \<noteq> Rejected e"
    by simp
  with Pair assms show ?thesis
    by (cases r) (auto simp: handleSubmit_def Let_def)
qed

lemma getGeminiResponse_console_None:
  "set (console (snd (getGeminiResponse genAI question w))) \<subseteq>
     {ConsoleError ''Error getting Gemini response:'' None}"
  by (auto simp: getGeminiResponse_def split: prod.splits promise.splits)

lemma handleSubmit_console:
  "ConsoleError m (Some e) \<notin> set (console (snd (handleSubmit genAI now st w)))"
proof (cases "(\<not> truthy (trim (input st)) \<and> attachment st = None) \<or> isLoading st")
  case True
  then show ?thesis by (simp add: handleSubmit_guarded)
next
  case False
  then show ?thesis
    using getGeminiResponse_console_None [of genAI "input st" w]
    by (auto simp: handleSubmit_effects)
qed


section \<open>The claims\<close>

text \<open>
  Claim C1. The classification of a response text is true exactly when the lower-cased
  text contains \<open>true\<close> as a contiguous substring, that is, exactly when the text holds the
  four letters in a row in either case; a text with \<open>true\<close> anywhere, such as
  \<open>that's not true\<close>, classifies the question as in-domain.
\<close>

theorem classification_is_substring_search:
  "(isCyberSecurityRelated t \<longleftrightarrow> (\<exists>pre post. toLowerCase t = pre @ ''true'' @ post)) \<and>
   (isCyberSecurityRelated t \<longleftrightarrow>
      (\<exists>pre a b c d post. t = pre @ [a, b, c, d] @ post \<and>
         a \<in> {CHR ''t'', CHR ''T''} \<and> b \<in> {CHR ''r'', CHR ''R''} \<and>
         c \<in> {CHR ''u'', CHR ''U''} \<and> d \<in> {CHR ''e'', CHR ''E''})) \<and>
   isCyberSecurityRelated ''that's not true''"
proof (intro conjI)
  show "isCyberSecurityRelated t \<longleftrightarrow> (\<exists>pre post. toLowerCase t = pre @ ''true'' @ post)"
    by (simp add: isCyberSecurityRelated_def includes_str_iff)
  show "isCyberSecurityRelated t \<longleftrightarrow>
      (\<exists>pre a b c d post. t = pre @ [a, b, c, d] @ post \<and>
         a \<in> {CHR ''t'', CHR ''T''} \<and> b \<in> {CHR ''r'', CHR ''R''} \<and>
         c \<in> {CHR ''u'', CHR ''U''} \<and> d \<in> {CHR ''e'', CHR ''E''})"
    by (rule isCyberSecurityRelated_chars)
  show "isCyberSecurityRelated ''that's not true''"
    by (simp add: isCyberSecurityRelated_def toLowerCase_def lower_char_def isUpper_def)
qed

text \<open>The stub answers \<open>True.\<close> and \<open>false\<close> of the specification, on both sides of C1.\<close>

theorem classification_is_substring_search_witness:
  "isCyberSecurityRelated ''True.'' \<and> (\<exists>pre post. toLowerCase ''True.'' = pre @ ''true'' @ post) \<and>
   \<not> isCyberSecurityRelated ''false'' \<and> \<not> (\<exists>pre post. toLowerCase ''false'' = pre @ ''true'' @ post)"
proof -
  have y: "isCyberSecurityRelated ''True.''"
    by (simp add: isCyberSecurityRelated_def toLowerCase_def lower_char_def isUpper_def)
  have n: "\<not> isCyberSecurityRelated ''false''"
    by (simp add: isCyberSecurityRelated_def toLowerCase_def lower_char_def isUpper_def)
  from y n classification_is_substring_search [of "''True.''"]
    classification_is_substring_search [of "''false''"]
  show ?thesis by blast
qed

text \<open>
  Claim C2. When the classification call resolves with a text that does not contain
  \<open>true\<close> in any case, \<open>getGeminiResponse\<close> resolves with the fixed refusal, and the
  classification prompt is the only prompt sent: the world is the one the classification
  call left, so no second call was made.
\<close>

theorem refusal_when_not_true:
  assumes "generateText (genAI modelName) (categoryCheckPrompt question) w = (Resolved t, w1)"
    and "\<not> sublist ''true'' (toLowerCase t)"
  shows "getGeminiResponse genAI question w =
         (Resolved refusal, \<lparr>world = w1, calls = [categoryCheckPrompt question], console = []\<rparr>)"
  using assms by (simp add: getGeminiResponse_classified_out isCyberSecurityRelated_sublist)

text \<open>The pizza example: the classifier answers \<open>false\<close>.\<close>

theorem refusal_when_not_true_witness:
  "generateText (stubAI pizzaTable modelName) (categoryCheckPrompt pizzaQuestion) 0 = (Resolved ''false'', 1) \<and>
   \<not> sublist ''true'' (toLowerCase ''false'') \<and>
   getGeminiResponse (stubAI pizzaTable) pizzaQuestion 0 =
     (Resolved refusal, \<lparr>world = 1, calls = [categoryCheckPrompt pizzaQuestion], console = []\<rparr>)"
proof -
  have h1: "generateText (stubAI pizzaTable modelName) (categoryCheckPrompt pizzaQuestion) 0 = (Resolved ''false'', 1)"
    by (simp add: stubAI_def pizzaTable_def generateText_def)
  have h2: "\<not> sublist ''true'' (toLowerCase ''false'')"
    by (simp add: toLowerCase_def lower_char_def isUpper_def flip: includes_str_sublist)
  from h1 h2 refusal_when_not_true [of "stubAI pizzaTable" pizzaQuestion 0 "''false''" 1, OF h1 h2] show ?thesis by blast
qed

text \<open>
  Claim C3. When the classification call resolves with a text that contains \<open>true\<close> in
  any case, exactly two prompts are sent: the classification prompt, then once the
  generation prompt, which ends with the question as it was passed in. The generation call
  is issued in the world the classification call left.
\<close>

theorem generator_invoked_when_true:
  assumes "generateText (genAI modelName) (categoryCheckPrompt question) w = (Resolved t, w1)"
    and "sublist ''true'' (toLowerCase t)"
  shows "calls (snd (getGeminiResponse genAI question w)) =
           [categoryCheckPrompt question,
            ''You are a cybersecurity expert AI assistant. Please provide a detailed, professional response to this cybersecurity question: '' @ question] \<and>
         world (snd (getGeminiResponse genAI question w)) =
           snd (genAI modelName (prompt question) w1)"
proof -
  obtain r w2 where g: "generateText (genAI modelName) (prompt question) w1 = (r, w2)"
    by (cases "generateText (genAI modelName) (prompt question) w1")
  have "w2 = snd (genAI modelName (prompt question) w1)"
    using g snd_generateText [of "genAI modelName" "prompt question" w1] by simp
  with assms g show ?thesis
    by (simp add: getGeminiResponse_classified_in isCyberSecurityRelated_sublist prompt_def)
qed


text \<open>The firewall example: the classifier answers \<open>True.\<close>.\<close>

theorem generator_invoked_when_true_witness:
  "generateText (stubAI firewallTable modelName) (categoryCheckPrompt firewallQuestion) 0 = (Resolved ''True.'', 1) \<and>
   sublist ''true'' (toLowerCase ''True.'') \<and>
   calls (snd (getGeminiResponse (stubAI firewallTable) firewallQuestion 0)) =
     [categoryCheckPrompt firewallQuestion,
      ''You are a cybersecurity expert AI assistant. Please provide a detailed, professional response to this cybersecurity question: How do I set up a firewall rule to block inbound SSH?''] \<and>
   world (snd (getGeminiResponse (stubAI firewallTable) firewallQuestion 0)) = 2"
proof -
  have h1: "generateText (stubAI firewallTable modelName) (categoryCheckPrompt firewallQuestion) 0 = (Resolved ''True.'', 1)"
    by (simp add: stubAI_def firewallTable_def generateText_def)
  have h2: "sublist ''true'' (toLowerCase ''True.'')"
    by (simp add: toLowerCase_def lower_char_def isUpper_def flip: includes_str_sublist)
  from h1 h2 generator_invoked_when_true [of "stubAI firewallTable" firewallQuestion 0 "''True.''" 1, OF h1 h2] show ?thesis
    by (simp add: stubAI_def firewallQuestion_def)
qed

text \<open>
  Claim C4. When the classification call raises (the call rejects or reading its text
  throws), and when the classification succeeds with an in-domain text and the generation
  call raises, \<open>getGeminiResponse\<close> resolves with the fixed technical-difficulty string.
  It never rejects.
\<close>

theorem technical_difficulties_on_error:
  "(fst (generateText (genAI modelName) (categoryCheckPrompt question) w) = Rejected e \<longrightarrow>
      fst (getGeminiResponse genAI question w) = Resolved technicalDifficulties) \<and>
   (generateText (genAI modelName) (categoryCheckPrompt question) w = (Resolved t, w1) \<and>
    sublist ''true'' (toLowerCase t) \<and>
    fst (generateText (genAI modelName) (prompt question) w1) = Rejected e \<longrightarrow>
      fst (getGeminiResponse genAI question w) = Resolved technicalDifficulties) \<and>
   fst (getGeminiResponse genAI question w) \<noteq> Rejected e'"
proof (intro conjI impI)
  assume "fst (generateText (genAI modelName) (categoryCheckPrompt question) w) = Rejected e"
  then obtain w1' where "generateText (genAI modelName) (categoryCheckPrompt question) w = (Rejected e, w1')"
    by (cases "generateText (genAI modelName) (categoryCheckPrompt question) w") simp
  then show "fst (getGeminiResponse genAI question w) = Resolved technicalDifficulties"
    by (simp add: getGeminiResponse_classify_rejected)
next
  assume a: "generateText (genAI modelName) (categoryCheckPrompt question) w = (Resolved t, w1) \<and>
    sublist ''true'' (toLowerCase t) \<and>
    fst (generateText (genAI modelName) (prompt question) w1) = Rejected e"
  then obtain w2 where "generateText (genAI modelName) (prompt question) w1 = (Rejected e, w2)"
    by (cases "generateText (genAI modelName) (prompt question) w1") simp
  with a show "fst (getGeminiResponse genAI question w) = Resolved technicalDifficulties"
    by (simp add: getGeminiResponse_classified_in isCyberSecurityRelated_sublist)
next
  show "fst (getGeminiResponse genAI question w) \<noteq> Rejected e'"
    by (rule getGeminiResponse_not_Rejected)
qed

text \<open>A network error in the classification call; a quota error in the generation call.\<close>

theorem technical_difficulties_on_error_witness:
  "fst (generateText (stubAI networkError modelName) (categoryCheckPrompt pizzaQuestion) 0) =
     Rejected (Error ''Failed to fetch'') \<and>
   fst (getGeminiResponse (stubAI networkError) pizzaQuestion 0) = Resolved technicalDifficulties \<and>
   generateText (stubAI quotaTable modelName) (categoryCheckPrompt firewallQuestion) 0 = (Resolved ''true'', 1) \<and>
   sublist ''true'' (toLowerCase ''true'') \<and>
   fst (generateText (stubAI quotaTable modelName) (prompt firewallQuestion) 1) =
     Rejected (Error ''429 quota exceeded'') \<and>
   fst (getGeminiResponse (stubAI quotaTable) firewallQuestion 0) = Resolved technicalDifficulties"
proof -
  have a: "fst (generateText (stubAI networkError modelName) (categoryCheckPrompt pizzaQuestion) 0) =
     Rejected (Error ''Failed to fetch'')"
    by (simp add: stubAI_def networkError_def generateText_def)
  have b1: "generateText (stubAI quotaTable modelName) (categoryCheckPrompt firewallQuestion) 0 = (Resolved ''true'', 1)"
    by (simp add: stubAI_def quotaTable_def generateText_def)
  have b2: "sublist ''true'' (toLowerCase ''true'')"
    by (simp add: toLowerCase_def lower_char_def isUpper_def flip: includes_str_sublist)
  have b3: "fst (generateText (stubAI quotaTable modelName) (prompt firewallQuestion) 1) =
     Rejected (Error ''429 quota exceeded'')"
    by (simp add: stubAI_def quotaTable_def generateText_def prompt_def categoryCheckPrompt_def)
  from a b1 b2 b3
    technical_difficulties_on_error [of "stubAI networkError" pizzaQuestion 0 "Error ''Failed to fetch''"]
    technical_difficulties_on_error [of "stubAI quotaTable" firewallQuestion 0 "Error ''429 quota exceeded''" "''true''" 1]
  show ?thesis by blast
qed

text \<open>
  Claim C5. For an in-domain question whose generation call resolves with a response whose
  text is \<open>a\<close>, the answer is \<open>a\<close> itself.
\<close>

theorem answer_is_raw_text:
  assumes "generateText (genAI modelName) (categoryCheckPrompt question) w = (Resolved t, w1)"
    and "sublist ''true'' (toLowerCase t)"
    and "genAI modelName (prompt question) w1 = (Resolved (Response (Inr a)), w2)"
  shows "fst (getGeminiResponse genAI question w) = Resolved a"
proof -
  from assms(3) have "generateText (genAI modelName) (prompt question) w1 = (Resolved a, w2)"
    by (simp add: generateText_def)
  with assms(1,2) show ?thesis
    by (simp add: getGeminiResponse_classified_in isCyberSecurityRelated_sublist)
qed

text \<open>The firewall example: the answer is the generator's \<open>Step 1: ...\<close>.\<close>

theorem answer_is_raw_text_witness:
  "generateText (stubAI firewallTable modelName) (categoryCheckPrompt firewallQuestion) 0 = (Resolved ''True.'', 1) \<and>
   sublist ''true'' (toLowerCase ''True.'') \<and>
   stubAI firewallTable modelName (prompt firewallQuestion) 1 = (Resolved (Response (Inr ''Step 1: ...'')), 2) \<and>
   fst (getGeminiResponse (stubAI firewallTable) firewallQuestion 0) = Resolved ''Step 1: ...''"
proof -
  have h1: "generateText (stubAI firewallTable modelName) (categoryCheckPrompt firewallQuestion) 0 = (Resolved ''True.'', 1)"
    by (simp add: stubAI_def firewallTable_def generateText_def)
  have h2: "sublist ''true'' (toLowerCase ''True.'')"
    by (simp add: toLowerCase_def lower_char_def isUpper_def flip: includes_str_sublist)
  have h3: "stubAI firewallTable modelName (prompt firewallQuestion) 1 = (Resolved (Response (Inr ''Step 1: ...'')), 2)"
    by (simp add: stubAI_def firewallTable_def prompt_def categoryCheckPrompt_def)
  from h1 h2 h3 answer_is_raw_text [of "stubAI firewallTable" firewallQuestion 0 "''True.''" 1 "''Step 1: ...''" 2, OF h1 h2 h3] show ?thesis by blast
qed

text \<open>
  Claim C6. With a deterministic service, a second invocation of \<open>getGeminiResponse\<close> on
  the same question, made in the world the first invocation left, has the same outcome as
  the first.
\<close>

theorem same_answer_twice:
  assumes "deterministic genAI"
  shows "fst (getGeminiResponse genAI question (world (snd (getGeminiResponse genAI question w)))) =
         fst (getGeminiResponse genAI question w)"
  using assms by (rule deterministic_answer)


text \<open>The firewall example, invoked twice in a row.\<close>

theorem same_answer_twice_witness:
  "deterministic (stubAI firewallTable) \<and>
   world (snd (getGeminiResponse (stubAI firewallTable) firewallQuestion 0)) = 2 \<and>
   fst (getGeminiResponse (stubAI firewallTable) firewallQuestion 0) = Resolved ''Step 1: ...'' \<and>
   fst (getGeminiResponse (stubAI firewallTable) firewallQuestion 2) = Resolved ''Step 1: ...''"
proof -
  have d: "deterministic (stubAI firewallTable)"
    by (rule deterministic_stubAI)
  have v: "world (snd (getGeminiResponse (stubAI firewallTable) firewallQuestion 0)) = 2"
    by (simp add: firewall_run)
  have a: "fst (getGeminiResponse (stubAI firewallTable) firewallQuestion 0) = Resolved ''Step 1: ...''"
    by (simp add: firewall_run)
  have "fst (getGeminiResponse (stubAI firewallTable) firewallQuestion 2) =
        fst (getGeminiResponse (stubAI firewallTable) firewallQuestion 0)"
    using same_answer_twice [OF d, of firewallQuestion 0] by (simp only: v)
  with d v a show ?thesis by simp
qed

text \<open>
  Claim C7. The prompts sent are the classification prompt alone, or the classification
  prompt followed by the generation prompt; the second case occurs exactly when the
  classification call resolved with a text containing \<open>true\<close>, and then the generation
  call is issued in the world the classification call left. A classification call that
  rejects or stays pending, and a text without \<open>true\<close>, are followed by no call.
\<close>

theorem calls_in_sequence:
  "calls (snd (getGeminiResponse genAI question w)) =
     (case fst (generateText (genAI modelName) (categoryCheckPrompt question) w) of
        Resolved t \<Rightarrow>
          if sublist ''true'' (toLowerCase t)
          then [categoryCheckPrompt question, prompt question]
          else [categoryCheckPrompt question]
      | Rejected e \<Rightarrow> [categoryCheckPrompt question]
      | Pending \<Rightarrow> [categoryCheckPrompt question]) \<and>
   world (snd (getGeminiResponse genAI question w)) =
     (if length (calls (snd (getGeminiResponse genAI question w))) = 2
      then snd (genAI modelName (prompt question) (snd (genAI modelName (categoryCheckPrompt question) w)))
      else snd (genAI modelName (categoryCheckPrompt question) w)) \<and>
   length (calls (snd (getGeminiResponse genAI question w))) \<le> 2"
  by (simp add: getGeminiResponse_calls getGeminiResponse_world snd_generateText
      isCyberSecurityRelated_sublist Let_def split: promise.splits)


text \<open>A failing classification, a refusal and a full run.\<close>

theorem calls_in_sequence_witness:
  "calls (snd (getGeminiResponse (stubAI networkError) firewallQuestion 0)) =
     [categoryCheckPrompt firewallQuestion] \<and>
   world (snd (getGeminiResponse (stubAI networkError) firewallQuestion 0)) = 1 \<and>
   calls (snd (getGeminiResponse (stubAI pizzaTable) pizzaQuestion 0)) =
     [categoryCheckPrompt pizzaQuestion] \<and>
   calls (snd (getGeminiResponse (stubAI firewallTable) firewallQuestion 0)) =
     [categoryCheckPrompt firewallQuestion, prompt firewallQuestion] \<and>
   world (snd (getGeminiResponse (stubAI firewallTable) firewallQuestion 0)) = 2"
proof -
  have t: "sublist ''true'' (toLowerCase ''True.'')"
    by (simp add: toLowerCase_def lower_char_def isUpper_def flip: includes_str_sublist)
  have f: "\<not> sublist ''true'' (toLowerCase ''false'')"
    by (simp add: toLowerCase_def lower_char_def isUpper_def flip: includes_str_sublist)
  have a: "fst (generateText (stubAI networkError modelName) (categoryCheckPrompt firewallQuestion) 0) =
           Rejected (Error ''Failed to fetch'')"
    by (simp add: stubAI_def networkError_def generateText_def)
  have b: "fst (generateText (stubAI pizzaTable modelName) (categoryCheckPrompt pizzaQuestion) 0) =
           Resolved ''false''"
    by (simp add: stubAI_def pizzaTable_def generateText_def)
  have c: "fst (generateText (stubAI firewallTable modelName) (categoryCheckPrompt firewallQuestion) 0) =
           Resolved ''True.''"
    by (simp add: stubAI_def firewallTable_def generateText_def)
  have s: "\<And>table p n. snd (stubAI table modelName p n) = Suc n"
    by (simp add: stubAI_def)
  from calls_in_sequence [of "stubAI networkError" firewallQuestion 0]
    calls_in_sequence [of "stubAI pizzaTable" pizzaQuestion 0]
    calls_in_sequence [of "stubAI firewallTable" firewallQuestion 0]
  show ?thesis
    by (simp add: a b c t f s)
qed

text \<open>
  Claim C8. Two runs of \<open>getGeminiResponse\<close> on the same question, in any two worlds and
  even with two services, have the same outcome and send the same prompts as soon as the
  two prompts built from the question are answered alike. In \<open>handleSubmit\<close> the effects
  of a submission, the prompts sent among them, do not depend on the messages or the search
  history of the state, and every prompt sent is built from the current input alone.
\<close>

theorem answer_depends_on_question_and_responses:
  "(fst (generateText (genAI modelName) (categoryCheckPrompt question) w) =
      fst (generateText (genAI' modelName) (categoryCheckPrompt question) w') \<and>
    fst (generateText (genAI modelName) (prompt question)
           (snd (genAI modelName (categoryCheckPrompt question) w))) =
      fst (generateText (genAI' modelName) (prompt question)
             (snd (genAI' modelName (categoryCheckPrompt question) w')))
    \<longrightarrow> fst (getGeminiResponse genAI question w) = fst (getGeminiResponse genAI' question w') \<and>
        calls (snd (getGeminiResponse genAI question w)) =
          calls (snd (getGeminiResponse genAI' question w'))) \<and>
   (input st = input st' \<and> isLoading st = isLoading st' \<and>
    (attachment st = None \<longleftrightarrow> attachment st' = None)
    \<longrightarrow> snd (handleSubmit genAI now st w) = snd (handleSubmit genAI now st' w)) \<and>
   set (calls (snd (handleSubmit genAI now st w))) \<subseteq>
     {categoryCheckPrompt (input st), prompt (input st)}"
proof (intro conjI impI)
  assume a: "fst (generateText (genAI modelName) (categoryCheckPrompt question) w) =
      fst (generateText (genAI' modelName) (categoryCheckPrompt question) w') \<and>
    fst (generateText (genAI modelName) (prompt question)
           (snd (genAI modelName (categoryCheckPrompt question) w))) =
      fst (generateText (genAI' modelName) (prompt question)
             (snd (genAI' modelName (categoryCheckPrompt question) w')))"
  then show "fst (getGeminiResponse genAI question w) = fst (getGeminiResponse genAI' question w')"
    by (auto simp: getGeminiResponse_answer snd_generateText split: promise.splits)
  from a show "calls (snd (getGeminiResponse genAI question w)) =
          calls (snd (getGeminiResponse genAI' question w'))"
    by (auto simp: getGeminiResponse_calls split: promise.splits)
next
  assume a: "input st = input st' \<and> isLoading st = isLoading st' \<and>
    (attachment st = None \<longleftrightarrow> attachment st' = None)"
  show "snd (handleSubmit genAI now st w) = snd (handleSubmit genAI now st' w)"
  proof (cases "(\<not> truthy (trim (input st)) \<and> attachment st = None) \<or> isLoading st")
    case True
    with a have "(\<not> truthy (trim (input st')) \<and> attachment st' = None) \<or> isLoading st'"
      by auto
    with True show ?thesis by (simp add: handleSubmit_guarded)
  next
    case False
    with a have "\<not> ((\<not> truthy (trim (input st')) \<and> attachment st' = None) \<or> isLoading st')"
      by auto
    with False a show ?thesis by (simp add: handleSubmit_effects)
  qed
next
  show "set (calls (snd (handleSubmit genAI now st w))) \<subseteq>
     {categoryCheckPrompt (input st), prompt (input st)}"
  proof (cases "(\<not> truthy (trim (input st)) \<and> attachment st = None) \<or> isLoading st")
    case True
    then show ?thesis by (simp add: handleSubmit_guarded)
  next
    case False
    then show ?thesis
      by (simp add: handleSubmit_effects getGeminiResponse_calls_subset)
  qed
qed

text \<open>
  The firewall question in a fresh world and after seven earlier calls, and submitted from a
  state without and with an earlier turn.
\<close>

theorem answer_depends_on_question_and_responses_witness:
  "fst (generateText (stubAI firewallTable modelName) (categoryCheckPrompt firewallQuestion) 0) =
     fst (generateText (stubAI firewallTable modelName) (categoryCheckPrompt firewallQuestion) 7) \<and>
   fst (getGeminiResponse (stubAI firewallTable) firewallQuestion 0) =
     fst (getGeminiResponse (stubAI firewallTable) firewallQuestion 7) \<and>
   input freshState = input laterState \<and> messages freshState \<noteq> messages laterState \<and>
   searchHistory freshState \<noteq> searchHistory laterState \<and>
   snd (handleSubmit (stubAI firewallTable) clock freshState 0) =
     snd (handleSubmit (stubAI firewallTable) clock laterState 0) \<and>
   set (calls (snd (handleSubmit (stubAI firewallTable) clock freshState 0))) \<subseteq>
     {categoryCheckPrompt (input freshState), prompt (input freshState)}"
proof -
  have h1: "fst (generateText (stubAI firewallTable modelName) (categoryCheckPrompt firewallQuestion) 0) =
     fst (generateText (stubAI firewallTable modelName) (categoryCheckPrompt firewallQuestion) 7)"
    by (rule deterministic_generateText [OF deterministic_stubAI])
  have h2: "fst (generateText (stubAI firewallTable modelName) (prompt firewallQuestion)
                   (snd (stubAI firewallTable modelName (categoryCheckPrompt firewallQuestion) 0))) =
            fst (generateText (stubAI firewallTable modelName) (prompt firewallQuestion)
                   (snd (stubAI firewallTable modelName (categoryCheckPrompt firewallQuestion) 7)))"
    by (rule deterministic_generateText [OF deterministic_stubAI])
  have h3: "input freshState = input laterState \<and> isLoading freshState = isLoading laterState \<and>
            (attachment freshState = None \<longleftrightarrow> attachment laterState = None)"
    by (simp add: freshState_def laterState_def)
  have h4: "messages freshState \<noteq> messages laterState \<and>
            searchHistory freshState \<noteq> searchHistory laterState"
    by (simp add: freshState_def laterState_def)
  from h1 h2 h3 h4
    answer_depends_on_question_and_responses
      [where genAI = "stubAI firewallTable" and genAI' = "stubAI firewallTable"
         and question = firewallQuestion and w = 0 and w' = 7
         and st = freshState and st' = laterState and now = clock]
  show ?thesis by meson
qed


text \<open>
  Claim C9 says that \<open>getGeminiResponse\<close> always resolves with a string. With a service
  whose call never settles it stays pending.
\<close>

theorem pending_counterexample:
  "fst (getGeminiResponse (stubAI hungService) firewallQuestion 0) = Pending"
  by (simp add: hungService_run)


text \<open>
  Claim C9, amended. \<open>getGeminiResponse\<close> never rejects, and it resolves with a string
  exactly when the remote calls it awaits settle: the classification call, and the
  generation call when the classification resolved with a text containing \<open>true\<close>. What
  the service would do on any other prompt or in any other world does not matter. So the
  \<^verbatim>\<open>catch\<close> branch of \<open>handleSubmit\<close> is never taken when the failure originates in the
  remote calls: no console line of a submission carries an exception, and after a
  submission that passes the guard the contents of the messages are the earlier ones, the
  input, and the answer of \<open>getGeminiResponse\<close> once it has resolved.
\<close>

theorem never_rejects:
  "fst (getGeminiResponse genAI question w) \<noteq> Rejected e \<and>
   ((\<exists>s. fst (getGeminiResponse genAI question w) = Resolved s) \<longleftrightarrow>
      fst (genAI modelName (categoryCheckPrompt question) w) \<noteq> Pending \<and>
      ((\<exists>t. fst (generateText (genAI modelName) (categoryCheckPrompt question) w) = Resolved t \<and>
            sublist ''true'' (toLowerCase t)) \<longrightarrow>
       fst (genAI modelName (prompt question)
              (snd (genAI modelName (categoryCheckPrompt question) w))) \<noteq> Pending)) \<and>
   ConsoleError m (Some e) \<notin> set (console (snd (handleSubmit genAI now st w))) \<and>
   (\<not> ((\<not> truthy (trim (input st)) \<and> attachment st = None) \<or> isLoading st) \<longrightarrow>
      map content (messages (fst (handleSubmit genAI now st w))) =
        map content (messages st) @ [input st] @
          (case fst (getGeminiResponse genAI (input st) w) of
             Resolved s \<Rightarrow> [s] | Rejected x \<Rightarrow> [] | Pending \<Rightarrow> []))"
proof (intro conjI impI)
  show "fst (getGeminiResponse genAI question w) \<noteq> Rejected e"
    by (rule getGeminiResponse_not_Rejected)
next
  show "(\<exists>s. fst (getGeminiResponse genAI question w) = Resolved s) \<longleftrightarrow>
      fst (genAI modelName (categoryCheckPrompt question) w) \<noteq> Pending \<and>
      ((\<exists>t. fst (generateText (genAI modelName) (categoryCheckPrompt question) w) = Resolved t \<and>
            sublist ''true'' (toLowerCase t)) \<longrightarrow>
       fst (genAI modelName (prompt question)
              (snd (genAI modelName (categoryCheckPrompt question) w))) \<noteq> Pending)"
    by (rule getGeminiResponse_Resolved_iff)
next
  show "ConsoleError m (Some e) \<notin> set (console (snd (handleSubmit genAI now st w)))"
    by (rule handleSubmit_console)
next
  assume "\<not> ((\<not> truthy (trim (input st)) \<and> attachment st = None) \<or> isLoading st)"
  then show "map content (messages (fst (handleSubmit genAI now st w))) =
        map content (messages st) @ [input st] @
          (case fst (getGeminiResponse genAI (input st) w) of
             Resolved s \<Rightarrow> [s] | Rejected x \<Rightarrow> [] | Pending \<Rightarrow> [])"
    by (rule handleSubmit_contents)
qed


text \<open>
  A service that hangs on other prompts but answers the two awaited ones; a service that
  hangs on the classification prompt; and a network error, where the answer shown is the
  string of the inner \<^verbatim>\<open>catch\<close>.
\<close>

theorem never_rejects_witness:
  "fst (stubAI pickyTable modelName pizzaQuestion 0) = Pending \<and>
   fst (stubAI pickyTable modelName (categoryCheckPrompt firewallQuestion) 0) \<noteq> Pending \<and>
   fst (stubAI pickyTable modelName (prompt firewallQuestion)
          (snd (stubAI pickyTable modelName (categoryCheckPrompt firewallQuestion) 0))) \<noteq> Pending \<and>
   (\<exists>s. fst (getGeminiResponse (stubAI pickyTable) firewallQuestion 0) = Resolved s) \<and>
   fst (stubAI hungService modelName (categoryCheckPrompt firewallQuestion) 0) = Pending \<and>
   \<not> (\<exists>s. fst (getGeminiResponse (stubAI hungService) firewallQuestion 0) = Resolved s) \<and>
   \<not> ((\<not> truthy (trim (input freshState)) \<and> attachment freshState = None) \<or> isLoading freshState) \<and>
   map content (messages (fst (handleSubmit (stubAI networkError) clock freshState 0))) =
     [firewallQuestion, technicalDifficulties]"
proof -
  have p0: "fst (stubAI pickyTable modelName pizzaQuestion 0) = Pending"
    by (simp add: stubAI_def pickyTable_def pizzaQuestion_def firewallQuestion_def
        categoryCheckPrompt_def prompt_def)
  have p1: "fst (stubAI pickyTable modelName (categoryCheckPrompt firewallQuestion) 0) \<noteq> Pending"
    by (simp add: stubAI_def pickyTable_def)
  have p2: "fst (stubAI pickyTable modelName (prompt firewallQuestion)
          (snd (stubAI pickyTable modelName (categoryCheckPrompt firewallQuestion) 0))) \<noteq> Pending"
    by (simp add: stubAI_def pickyTable_def prompt_def categoryCheckPrompt_def)
  have r: "\<exists>s. fst (getGeminiResponse (stubAI pickyTable) firewallQuestion 0) = Resolved s"
    using p1 p2
      never_rejects [where genAI = "stubAI pickyTable" and question = firewallQuestion and w = 0]
    by blast
  have q1: "fst (stubAI hungService modelName (categoryCheckPrompt firewallQuestion) 0) = Pending"
    by (simp add: stubAI_def hungService_def)
  have n: "\<not> (\<exists>s. fst (getGeminiResponse (stubAI hungService) firewallQuestion 0) = Resolved s)"
    using q1
      never_rejects [where genAI = "stubAI hungService" and question = firewallQuestion and w = 0]
    by blast
  have h2: "\<not> ((\<not> truthy (trim (input freshState)) \<and> attachment freshState = None) \<or> isLoading freshState)"
    by (simp add: freshState_def firewallQuestion_def truthy_def trim_def isWhiteSpace_def)
  have h3: "input freshState = firewallQuestion" "messages freshState = []"
    by (simp_all add: freshState_def)
  have c: "map content (messages (fst (handleSubmit (stubAI networkError) clock freshState 0))) =
     [firewallQuestion, technicalDifficulties]"
    using h2
      never_rejects [where genAI = "stubAI networkError" and st = freshState and now = clock and w = 0]
    by (simp add: h3 networkError_run)
  from p0 p1 p2 r q1 n h2 c show ?thesis by simp
qed


text \<open>
  Claim C10. A submission whose input consists of white space only (or is empty) with no
  attachment, or made while a request is loading, returns the state as it was and has no
  effects. A white-space-only input with an attachment is submitted: the user's message
  holds the input as typed and the first prompt sent is the classification prompt of that
  input.
\<close>

theorem submit_noop:
  "(((\<forall>c\<in>set (input st). isWhiteSpace c) \<and> attachment st = None) \<or> isLoading st \<longrightarrow>
      handleSubmit genAI now st w = (st, \<lparr>world = w, calls = [], console = []\<rparr>)) \<and>
   ((\<forall>c\<in>set (input st). isWhiteSpace c) \<and> attachment st = Some a \<and> \<not> isLoading st \<longrightarrow>
      snd (handleSubmit genAI now st w) = snd (getGeminiResponse genAI (input st) w) \<and>
      hd (calls (snd (handleSubmit genAI now st w))) = categoryCheckPrompt (input st) \<and>
      content (messages (fst (handleSubmit genAI now st w)) ! length (messages st)) = input st)"
proof (intro conjI impI)
  assume "((\<forall>c\<in>set (input st). isWhiteSpace c) \<and> attachment st = None) \<or> isLoading st"
  then have "(\<not> truthy (trim (input st)) \<and> attachment st = None) \<or> isLoading st"
    by (simp add: truthy_def trim_empty_iff)
  then show "handleSubmit genAI now st w = (st, \<lparr>world = w, calls = [], console = []\<rparr>)"
    by (rule handleSubmit_guarded)
next
  assume a: "(\<forall>c\<in>set (input st). isWhiteSpace c) \<and> attachment st = Some a \<and> \<not> isLoading st"
  then have g: "\<not> ((\<not> truthy (trim (input st)) \<and> attachment st = None) \<or> isLoading st)"
    by simp
  then show e: "snd (handleSubmit genAI now st w) = snd (getGeminiResponse genAI (input st) w)"
    by (rule handleSubmit_effects)
  show "hd (calls (snd (handleSubmit genAI now st w))) = categoryCheckPrompt (input st)"
    unfolding e by (simp add: getGeminiResponse_calls split: promise.splits)
  have "map content (messages (fst (handleSubmit genAI now st w))) ! length (messages st) = input st"
    unfolding handleSubmit_contents [OF g] by (simp add: nth_append)
  moreover have "length (messages st) < length (messages (fst (handleSubmit genAI now st w)))"
    using arg_cong [OF handleSubmit_contents [OF g, of genAI now w], of length] by simp
  ultimately show "content (messages (fst (handleSubmit genAI now st w)) ! length (messages st)) = input st"
    by simp
qed


text \<open>A blank input, a busy state, and a blank input with an attached file.\<close>

theorem submit_noop_witness:
  "input blankState = ''  '' \<and> list_all isWhiteSpace ''  '' \<and> attachment blankState = None \<and>
   handleSubmit (stubAI networkError) clock blankState 0 =
     (blankState, \<lparr>world = 0, calls = [], console = []\<rparr>) \<and>
   isLoading busyState \<and>
   handleSubmit (stubAI networkError) clock busyState 0 =
     (busyState, \<lparr>world = 0, calls = [], console = []\<rparr>) \<and>
   input blankWithReport = ''  '' \<and> attachment blankWithReport = Some report \<and>
   \<not> isLoading blankWithReport \<and>
   hd (calls (snd (handleSubmit (stubAI networkError) clock blankWithReport 0))) =
     categoryCheckPrompt ''  '' \<and>
   content (messages (fst (handleSubmit (stubAI networkError) clock blankWithReport 0)) ! 0) = ''  ''"
proof -
  have s: "list_all isWhiteSpace ''  ''"
    by (simp add: isWhiteSpace_def)
  have i: "input blankState = ''  ''" "input blankWithReport = ''  ''"
    "messages blankWithReport = []"
    by (simp_all add: blankState_def blankWithReport_def freshState_def)
  have b: "(\<forall>c\<in>set (input blankState). isWhiteSpace c) \<and> attachment blankState = None"
    by (simp add: blankState_def freshState_def isWhiteSpace_def)
  have l: "isLoading busyState"
    by (simp add: busyState_def freshState_def)
  have r: "(\<forall>c\<in>set (input blankWithReport). isWhiteSpace c) \<and>
           attachment blankWithReport = Some report \<and> \<not> isLoading blankWithReport"
    by (simp add: blankWithReport_def freshState_def isWhiteSpace_def)
  have 1: "handleSubmit (stubAI networkError) clock blankState 0 =
           (blankState, \<lparr>world = 0, calls = [], console = []\<rparr>)"
    using b submit_noop [where st = blankState and genAI = "stubAI networkError" and now = clock and w = 0]
    by blast
  have 2: "handleSubmit (stubAI networkError) clock busyState 0 =
           (busyState, \<lparr>world = 0, calls = [], console = []\<rparr>)"
    using l submit_noop [where st = busyState and genAI = "stubAI networkError" and now = clock and w = 0]
    by blast
  have 3: "hd (calls (snd (handleSubmit (stubAI networkError) clock blankWithReport 0))) =
             categoryCheckPrompt (input blankWithReport) \<and>
           content (messages (fst (handleSubmit (stubAI networkError) clock blankWithReport 0)) !
                      length (messages blankWithReport)) = input blankWithReport"
    using r submit_noop [where st = blankWithReport and a = report and genAI = "stubAI networkError"
      and now = clock and w = 0]
    by blast
  from s b l r 1 2 3 show ?thesis
    by (simp add: i)
qed

end
